theory Spec2Isabelle
  imports Main "HOL-Library.Sublist"
begin

section \<open>The error handler of pyrogram: src/pyrogram/handlers/error_handler.py\<close>

text \<open>
  The file defines one class, \<^verbatim>\<open>ErrorHandler\<close>. Its constructor patches two extension
  points of the process (the event loop's \<^verbatim>\<open>run_in_executor\<close> and \<^verbatim>\<open>sys.excepthook\<close>);
  its two methods are the replacements. Both methods call code that is not theirs: the
  user's callback and the two callables saved in class attributes. The model passes
  these in as functions that either return or raise, and every method returns the list
  of calls it made (in order) together with its own outcome.
\<close>

subsection \<open>Values, exceptions, outcomes\<close>

text \<open>
  The classes the file names, and any other class by its name. \<^verbatim>\<open>errors.RPCError\<close> and
  \<^verbatim>\<open>errors.FloodWait\<close> are declared in \<^verbatim>\<open>pyrogram.errors\<close>, outside this file.
\<close>

datatype pyclass = BaseException | RPCError | FloodWait | OtherClass string

type_synonym traceback = "string list"

text \<open>
  An exception object: its class \<^verbatim>\<open>type(e)\<close>, the other classes of that class's
  \<^verbatim>\<open>__mro__\<close> (the hierarchy is declared outside this file, so each exception carries
  it), what the attribute lookup \<^verbatim>\<open>e.__module__\<close> finds (\<open>None\<close> when the lookup
  raises \<^verbatim>\<open>AttributeError\<close>), its message and its \<^verbatim>\<open>__traceback__\<close>.
\<close>

record exn =
  exn_type :: pyclass
  exn_bases :: "pyclass list"
  exn_module :: "string option"
  exn_message :: string
  exn_traceback :: traceback

datatype pyval = PyNone | PyInt int | PyStr string | PyObj string

text \<open>A call either returns a value or raises an exception.\<close>

datatype outcome = Returns pyval | Raises exn

text \<open>
  \<^verbatim>\<open>isinstance(e, c)\<close>. Only instances of \<^verbatim>\<open>BaseException\<close> can be raised or caught,
  so every exception is an instance of that class.
\<close>

definition isinstance :: "exn \<Rightarrow> pyclass \<Rightarrow> bool" where
  "isinstance e c = (c = BaseException \<or> c = exn_type e \<or> c \<in> set (exn_bases e))"

text \<open>An \<^verbatim>\<open>except\<close> clause with a tuple of classes matches an instance of any of them.\<close>

definition except_matches :: "pyclass list \<Rightarrow> exn \<Rightarrow> bool" where
  "except_matches classes e = list_ex (isinstance e) classes"

text \<open>
  \<^verbatim>\<open>sys.exc_info()\<close> inside an \<^verbatim>\<open>except\<close> clause that is handling \<open>e\<close>: the tuple
  \<^verbatim>\<open>(type(e), e, e.__traceback__)\<close> of the exception being handled.
\<close>

definition sys_exc_info :: "exn \<Rightarrow> pyclass \<times> exn \<times> traceback" where
  "sys_exc_info e = (exn_type e, e, exn_traceback e)"

text \<open>\<^verbatim>\<open>needle in hay\<close> on Python strings: \<open>needle\<close> occurs as a contiguous part.\<close>

fun str_contains :: "string \<Rightarrow> string \<Rightarrow> bool" where
  "str_contains needle [] = (needle = [])"
| "str_contains needle (c # cs) = (prefix needle (c # cs) \<or> str_contains needle cs)"

text \<open>\<^verbatim>\<open>getattr(e, '__module__', '')\<close>: the attribute, or the empty string without it.\<close>

definition getattr_module :: "exn \<Rightarrow> string" where
  "getattr_module e = (case exn_module e of None \<Rightarrow> [] | Some m \<Rightarrow> m)"

subsection \<open>The class and its instances\<close>

record client =
  client_name :: string
  loop :: nat

type_synonym kwargs = "(string \<times> pyval) list"

type_synonym callback = "client \<Rightarrow> exn \<Rightarrow> outcome"

record ErrorHandler =
  client :: client
  callback :: callback
  exceptions_to_catch :: "pyclass list"

text \<open>
  The positional arguments an exception hook can be called with: a type, a value, a
  traceback, and an instance of the class when the hook was bound to one.
\<close>

datatype hook_arg = Instance ErrorHandler | Class pyclass | Value exn | Traceback traceback

text \<open>
  A callable, by what a call with a list of positional arguments does (a call with a
  number of arguments its signature does not take raises \<^verbatim>\<open>TypeError\<close> and runs no
  part of its body). A function written with \<^verbatim>\<open>def\<close> or \<^verbatim>\<open>lambda\<close> is a descriptor:
  stored in a class attribute and read through an instance it becomes a method bound
  to the instance, which is then the first argument of every call. A builtin function
  (the interpreter's own \<^verbatim>\<open>sys.excepthook\<close>), a bound method and a
  \<^verbatim>\<open>functools.partial\<close> object are read as they are.
\<close>

datatype callable =
  Plain_function "hook_arg list \<Rightarrow> outcome"
| Other_callable "hook_arg list \<Rightarrow> outcome"

fun call :: "callable \<Rightarrow> hook_arg list \<Rightarrow> outcome" where
  "call (Plain_function f) args = f args"
| "call (Other_callable f) args = f args"

text \<open>
  \<^verbatim>\<open>self.attr\<close> for a class attribute that holds the callable: the arguments the
  object read puts before those of a call.
\<close>

fun bound_args :: "ErrorHandler \<Rightarrow> callable \<Rightarrow> hook_arg list" where
  "bound_args self (Plain_function f) = [Instance self]"
| "bound_args self (Other_callable f) = []"

text \<open>
  The class attributes of lines 49 and 50: the callables that stood in
  \<^verbatim>\<open>asyncio.BaseEventLoop.run_in_executor\<close> and in \<^verbatim>\<open>sys.excepthook\<close> when the class
  body ran. The first is read through the class (line 69), which binds nothing, and
  is given by what the awaited call does on the loop, the positional and the keyword
  arguments. The second is read through \<^verbatim>\<open>self\<close> (lines 82, 88 and 90).
\<close>

record ErrorHandler_class =
  original_run_in_executor :: "nat \<Rightarrow> pyval list \<Rightarrow> kwargs \<Rightarrow> outcome"
  original_except_hook :: callable

text \<open>The calls a method makes to code outside it, with their arguments.\<close>

datatype event =
  Original_run_in_executor nat "pyval list" kwargs
| Callback client exn
| Original_except_hook "hook_arg list"

fun original_run_calls :: "event list \<Rightarrow> (nat \<times> pyval list \<times> kwargs) list" where
  "original_run_calls [] = []"
| "original_run_calls (Original_run_in_executor l a k # es) = (l, a, k) # original_run_calls es"
| "original_run_calls (_ # es) = original_run_calls es"

fun callback_calls :: "event list \<Rightarrow> (client \<times> exn) list" where
  "callback_calls [] = []"
| "callback_calls (Callback c e # es) = (c, e) # callback_calls es"
| "callback_calls (_ # es) = callback_calls es"

fun original_hook_calls :: "event list \<Rightarrow> hook_arg list list" where
  "original_hook_calls [] = []"
| "original_hook_calls (Original_except_hook args # es) = args # original_hook_calls es"
| "original_hook_calls (_ # es) = original_hook_calls es"

subsection \<open>\<^verbatim>\<open>run_in_executor\<close>, lines 67 to 75\<close>

text \<open>
  The original is awaited on \<^verbatim>\<open>self.client.loop\<close> with the arguments received. The
  \<^verbatim>\<open>except\<close> clauses are tried in the source's order: \<^verbatim>\<open>FloodWait\<close> is raised again,
  a class of \<^verbatim>\<open>self.exceptions_to_catch\<close> goes to the callback, whose return value is
  dropped (the method then ends without \<^verbatim>\<open>return\<close>, which is \<^verbatim>\<open>None\<close>) and whose
  exception leaves the method; any other exception leaves the method as it is.
\<close>

definition run_in_executor ::
  "ErrorHandler_class \<Rightarrow> ErrorHandler \<Rightarrow> pyval list \<Rightarrow> kwargs \<Rightarrow> event list \<times> outcome" where
  "run_in_executor K self args kw =
     (let awaited = Original_run_in_executor (loop (client self)) args kw in
      case original_run_in_executor K (loop (client self)) args kw of
        Returns result \<Rightarrow> ([awaited], Returns result)
      | Raises exc \<Rightarrow>
          if isinstance exc FloodWait then ([awaited], Raises exc)
          else if except_matches (exceptions_to_catch self) exc then
            ([awaited, Callback (client self) exc],
             case callback self (client self) exc of
               Returns _ \<Rightarrow> Returns PyNone
             | Raises exc' \<Rightarrow> Raises exc')
          else ([awaited], Raises exc))"

subsection \<open>\<^verbatim>\<open>except_hook\<close>, lines 77 to 90\<close>

text \<open>
  \<^verbatim>\<open>self.original_except_hook(*info)\<close> as a statement: the class attribute is read
  through \<^verbatim>\<open>self\<close>, the object read is called with the three values of \<open>info\<close> (after
  the instance, when the read bound it), and the return value is dropped; an exception
  of the call is not caught.
\<close>

definition call_original_except_hook ::
  "ErrorHandler_class \<Rightarrow> ErrorHandler \<Rightarrow> pyclass \<times> exn \<times> traceback \<Rightarrow> event list \<times> outcome" where
  "call_original_except_hook K self info =
     (case info of (ty, v, tb) \<Rightarrow>
        (let args = bound_args self (original_except_hook K) @ [Class ty, Value v, Traceback tb]
         in ([Original_except_hook args],
             case call (original_except_hook K) args of
               Returns _ \<Rightarrow> Returns PyNone
             | Raises x \<Rightarrow> Raises x)))"

text \<open>
  The \<^verbatim>\<open>try\<close> statement the source writes twice (lines 79 to 82 and 85 to 88): the
  callback is called with the client and \<^verbatim>\<open>args[1]\<close>; when it raises \<open>e\<close>, the
  \<^verbatim>\<open>except BaseException\<close> clause handles \<open>e\<close> and calls the saved hook with
  \<^verbatim>\<open>sys.exc_info()\<close>, which there is the information of \<open>e\<close>.
\<close>

definition try_callback ::
  "ErrorHandler_class \<Rightarrow> ErrorHandler \<Rightarrow> exn \<Rightarrow> event list \<times> outcome" where
  "try_callback K self v =
     (case callback self (client self) v of
        Returns _ \<Rightarrow> ([Callback (client self) v], Returns PyNone)
      | Raises e \<Rightarrow>
          (let (evs, out) = call_original_except_hook K self (sys_exc_info e)
           in (Callback (client self) v # evs, out)))"

text \<open>
  \<^verbatim>\<open>sys.excepthook\<close> is called with three arguments, the type, the value and the
  traceback of the exception that nothing caught; \<^verbatim>\<open>args[1]\<close> is the value.
\<close>

definition except_hook ::
  "ErrorHandler_class \<Rightarrow> ErrorHandler \<Rightarrow> bool \<Rightarrow> pyclass \<times> exn \<times> traceback
     \<Rightarrow> event list \<times> outcome" where
  "except_hook K self catch_all args =
     (case args of (ty, v, tb) \<Rightarrow>
        if catch_all then try_callback K self v
        else if str_contains ''pyrogram.errors'' (getattr_module v) then try_callback K self v
        else call_original_except_hook K self (ty, v, tb))"

subsection \<open>\<^verbatim>\<open>__init__\<close>, lines 52 to 65, and the patched process\<close>

text \<open>
  What stands at a patch point: the callable saved in the class attribute, or a method
  of an instance (\<^verbatim>\<open>self.run_in_executor\<close>; \<^verbatim>\<open>functools.partial(self.except_hook, flag)\<close>).
\<close>

datatype run_impl = Saved_run_in_executor | Bound_run_in_executor ErrorHandler

datatype hook_impl = Saved_except_hook | Partial_except_hook ErrorHandler bool

text \<open>
  The three places the constructor assigns to: the class attribute
  \<^verbatim>\<open>asyncio.BaseEventLoop.run_in_executor\<close>, the instance attribute
  \<^verbatim>\<open>run_in_executor\<close> of a loop (absent until assigned), and \<^verbatim>\<open>sys.excepthook\<close>.
\<close>

record process =
  BaseEventLoop_run_in_executor :: run_impl
  loop_run_in_executor :: "nat \<Rightarrow> run_impl option"
  sys_excepthook :: hook_impl

text \<open>
  The bound method and the partial object refer to \<^verbatim>\<open>self\<close>, so they see the
  attributes as the constructor leaves them; \<^verbatim>\<open>tuple(...)\<close> keeps the classes and
  their order.
\<close>

definition ErrorHandler_init ::
  "process \<Rightarrow> client \<Rightarrow> callback \<Rightarrow> bool \<Rightarrow> ErrorHandler \<times> process" where
  "ErrorHandler_init p cl cb catch_all =
     (let self = \<lparr>client = cl, callback = cb, exceptions_to_catch = [RPCError]\<rparr> in
      if catch_all then
        (let self = self\<lparr>exceptions_to_catch := exceptions_to_catch self @ [BaseException]\<rparr>
         in (self, p\<lparr>BaseEventLoop_run_in_executor := Bound_run_in_executor self,
                      sys_excepthook := Partial_except_hook self True\<rparr>))
      else
        (self, p\<lparr>loop_run_in_executor :=
                     (loop_run_in_executor p)(loop cl := Some (Bound_run_in_executor self)),
                  sys_excepthook := Partial_except_hook self False\<rparr>))"

text \<open>
  \<^verbatim>\<open>lp.run_in_executor(*args, **kw)\<close> in the process: the instance attribute of the
  loop when there is one, the class attribute otherwise. A bound method put in the
  class attribute is not bound again, so the wrapper does not receive \<open>lp\<close>.
\<close>

definition loop_run ::
  "ErrorHandler_class \<Rightarrow> process \<Rightarrow> nat \<Rightarrow> pyval list \<Rightarrow> kwargs \<Rightarrow> event list \<times> outcome" where
  "loop_run K p lp args kw =
     (case (case loop_run_in_executor p lp of
              Some f \<Rightarrow> f
            | None \<Rightarrow> BaseEventLoop_run_in_executor p) of
        Saved_run_in_executor \<Rightarrow>
          ([Original_run_in_executor lp args kw], original_run_in_executor K lp args kw)
      | Bound_run_in_executor self \<Rightarrow> run_in_executor K self args kw)"

text \<open>
  The interpreter reporting an exception that nothing caught: it calls
  \<^verbatim>\<open>sys.excepthook\<close> with the type, the value and the traceback.
\<close>

definition uncaught ::
  "ErrorHandler_class \<Rightarrow> process \<Rightarrow> pyclass \<times> exn \<times> traceback \<Rightarrow> event list \<times> outcome" where
  "uncaught K p info =
     (case sys_excepthook p of
        Saved_except_hook \<Rightarrow>
          (case info of (ty, v, tb) \<Rightarrow>
             ([Original_except_hook [Class ty, Value v, Traceback tb]],
              call (original_except_hook K) [Class ty, Value v, Traceback tb]))
      | Partial_except_hook self catch_all \<Rightarrow> except_hook K self catch_all info)"

subsection \<open>The condition of the specification\<close>

text \<open>
  The specification's condition for the callback when \<open>catch_all\<close> is false, in its
  words: the module of the exception belongs to the library's protocol-error
  namespace. That namespace is the package \<^verbatim>\<open>pyrogram.errors\<close>: the module of that
  name and the modules whose dotted name starts with it.
\<close>

definition spec_protocol_namespace :: "string \<Rightarrow> bool" where
  "spec_protocol_namespace m = (m = ''pyrogram.errors'' \<or> prefix ''pyrogram.errors.'' m)"

subsection \<open>Concrete inputs\<close>

definition a_client :: client where
  "a_client = \<lparr>client_name = ''bot'', loop = 1\<rparr>"

definition flood_wait :: exn where
  "flood_wait = \<lparr>exn_type = FloodWait,
     exn_bases = [OtherClass ''Flood'', RPCError, OtherClass ''Exception''],
     exn_module = Some ''pyrogram.errors.exceptions.flood_420'',
     exn_message = ''FLOOD_WAIT_X'', exn_traceback = [''invoke'']\<rparr>"

definition bad_request :: exn where
  "bad_request = \<lparr>exn_type = OtherClass ''BadRequest'',
     exn_bases = [RPCError, OtherClass ''Exception''],
     exn_module = Some ''pyrogram.errors.exceptions.bad_request_400'',
     exn_message = ''PEER_ID_INVALID'', exn_traceback = [''invoke'']\<rparr>"

definition key_error :: exn where
  "key_error = \<lparr>exn_type = OtherClass ''KeyError'',
     exn_bases = [OtherClass ''LookupError'', OtherClass ''Exception''],
     exn_module = None, exn_message = ''peer'', exn_traceback = [''main'']\<rparr>"

definition callback_failure :: exn where
  "callback_failure = \<lparr>exn_type = OtherClass ''ZeroDivisionError'',
     exn_bases = [OtherClass ''ArithmeticError'', OtherClass ''Exception''],
     exn_module = None, exn_message = ''division by zero'',
     exn_traceback = [''except_hook'', ''on_error'']\<rparr>"

definition lookalike :: exn where
  "lookalike = \<lparr>exn_type = OtherClass ''Oops'', exn_bases = [OtherClass ''Exception''],
     exn_module = Some ''app.notpyrogram.errors_extra'',
     exn_message = ''oops'', exn_traceback = [''main'']\<rparr>"

definition quiet_callback :: callback where
  "quiet_callback c e = Returns (PyStr ''logged'')"

definition broken_callback :: callback where
  "broken_callback c e = Raises callback_failure"

definition type_error :: exn where
  "type_error = \<lparr>exn_type = OtherClass ''TypeError'', exn_bases = [OtherClass ''Exception''],
     exn_module = None, exn_message = ''takes 3 positional arguments but 4 were given'',
     exn_traceback = [''except_hook'']\<rparr>"

text \<open>The interpreter's own hook, a builtin function: it prints and returns \<^verbatim>\<open>None\<close>.\<close>

definition builtin_excepthook :: callable where
  "builtin_excepthook = Other_callable (\<lambda>args. Returns PyNone)"

text \<open>A hook written as \<^verbatim>\<open>def hook(ty, value, tb)\<close>: three parameters, no more.\<close>

definition function_excepthook :: callable where
  "function_excepthook =
     Plain_function (\<lambda>args. if length args = 3 then Returns PyNone else Raises type_error)"

definition succeeding :: ErrorHandler_class where
  "succeeding = \<lparr>original_run_in_executor = (\<lambda>l a k. Returns (PyInt 42)),
     original_except_hook = builtin_excepthook\<rparr>"

definition failing_with :: "exn \<Rightarrow> ErrorHandler_class" where
  "failing_with e = \<lparr>original_run_in_executor = (\<lambda>l a k. Raises e),
     original_except_hook = builtin_excepthook\<rparr>"

definition function_saved :: ErrorHandler_class where
  "function_saved = \<lparr>original_run_in_executor = (\<lambda>l a k. Returns (PyInt 42)),
     original_except_hook = function_excepthook\<rparr>"

definition fresh_process :: process where
  "fresh_process = \<lparr>BaseEventLoop_run_in_executor = Saved_run_in_executor,
     loop_run_in_executor = (\<lambda>l. None), sys_excepthook = Saved_except_hook\<rparr>"

section \<open>Properties\<close>

subsection \<open>Helper facts\<close>

lemma str_contains_iff: "str_contains n h \<longleftrightarrow> (\<exists>ps ss. h = ps @ n @ ss)"
proof (induction h)
  case Nil
  then show ?case by auto
next
  case (Cons c cs)
  show ?case
  proof
    assume "str_contains n (c # cs)"
    then consider "prefix n (c # cs)" | "str_contains n cs" by auto
    then show "\<exists>ps ss. c # cs = ps @ n @ ss"
    proof cases
      case 1
      then obtain ss where "c # cs = n @ ss" by (auto simp: prefix_def)
      then have "c # cs = [] @ n @ ss" by simp
      then show ?thesis by blast
    next
      case 2
      with Cons.IH obtain ps ss where "cs = ps @ n @ ss" by blast
      then have "c # cs = (c # ps) @ n @ ss" by simp
      then show ?thesis by blast
    qed
  next
    assume "\<exists>ps ss. c # cs = ps @ n @ ss"
    then obtain ps ss where eq: "c # cs = ps @ n @ ss" by blast
    show "str_contains n (c # cs)"
    proof (cases ps)
      case Nil
      with eq have "prefix n (c # cs)" by (simp add: prefix_def)
      then show ?thesis by simp
    next
      case (Cons p ps')
      with eq have "cs = ps' @ n @ ss" by simp
      with Cons.IH have "str_contains n cs" by blast
      then show ?thesis by simp
    qed
  qed
qed

lemma init_handler:
  "fst (ErrorHandler_init p cl cb catch_all) =
     \<lparr>client = cl, callback = cb,
      exceptions_to_catch = (if catch_all then [RPCError, BaseException] else [RPCError])\<rparr>"
  by (simp add: ErrorHandler_init_def Let_def)

lemma init_client: "client (fst (ErrorHandler_init p cl cb catch_all)) = cl"
  by (simp add: init_handler)

lemma run_in_executor_trace:
  "\<exists>rest. fst (run_in_executor K self args kw) =
            Original_run_in_executor (loop (client self)) args kw # rest
          \<and> original_run_calls rest = []"
  by (simp add: run_in_executor_def Let_def split: outcome.split)

text \<open>
  After the constructor, a call of \<^verbatim>\<open>run_in_executor\<close> on the client's loop (per-client
  patch), or on any loop with no instance attribute of that name (global patch),
  runs the wrapper of the new instance.
\<close>

lemma loop_run_per_client_patch:
  "loop_run K (snd (ErrorHandler_init p cl cb False)) (loop cl) args kw =
     run_in_executor K (fst (ErrorHandler_init p cl cb False)) args kw"
  by (simp add: loop_run_def ErrorHandler_init_def Let_def)

lemma loop_run_global_patch:
  "loop_run_in_executor p lp = None \<Longrightarrow>
   loop_run K (snd (ErrorHandler_init p cl cb True)) lp args kw =
     run_in_executor K (fst (ErrorHandler_init p cl cb True)) args kw"
  by (simp add: loop_run_def ErrorHandler_init_def Let_def)

lemma uncaught_after_init:
  "uncaught K (snd (ErrorHandler_init p cl cb catch_all)) info =
     except_hook K (fst (ErrorHandler_init p cl cb catch_all)) catch_all info"
  by (simp add: uncaught_def ErrorHandler_init_def Let_def)

lemma try_callback_calls:
  "callback_calls (fst (try_callback K self v)) = [(client self, v)]"
  by (simp add: try_callback_def call_original_except_hook_def sys_exc_info_def Let_def
      split: outcome.split)

lemma call_original_except_hook_eq:
  "call_original_except_hook K self (ty, v, tb) =
     ([Original_except_hook
         (bound_args self (original_except_hook K) @ [Class ty, Value v, Traceback tb])],
      case call (original_except_hook K)
             (bound_args self (original_except_hook K) @ [Class ty, Value v, Traceback tb]) of
        Returns _ \<Rightarrow> Returns PyNone
      | Raises x \<Rightarrow> Raises x)"
  by (simp add: call_original_except_hook_def Let_def)

text \<open>A saved hook that the read through \<^verbatim>\<open>self\<close> does not bind gets the three values.\<close>

lemma call_original_except_hook_unbound:
  "original_except_hook K = Other_callable f \<Longrightarrow>
   call_original_except_hook K self (ty, v, tb) =
     ([Original_except_hook [Class ty, Value v, Traceback tb]],
      case f [Class ty, Value v, Traceback tb] of
        Returns _ \<Rightarrow> Returns PyNone
      | Raises x \<Rightarrow> Raises x)"
  by (simp add: call_original_except_hook_eq)

text \<open>A saved plain function is bound: it gets the instance first, four arguments in all.\<close>

lemma call_original_except_hook_bound:
  "original_except_hook K = Plain_function f \<Longrightarrow>
   call_original_except_hook K self (ty, v, tb) =
     ([Original_except_hook [Instance self, Class ty, Value v, Traceback tb]],
      case f [Instance self, Class ty, Value v, Traceback tb] of
        Returns _ \<Rightarrow> Returns PyNone
      | Raises x \<Rightarrow> Raises x)"
  by (simp add: call_original_except_hook_eq)

text \<open>
  So with a saved hook \<^verbatim>\<open>def hook(ty, value, tb)\<close> the call of line 90 raises
  \<^verbatim>\<open>TypeError\<close>, where line 69 reads the other saved callable through the class.
\<close>

lemma saved_plain_function_is_bound:
  "except_hook function_saved
      (fst (ErrorHandler_init fresh_process a_client quiet_callback False)) False
      (OtherClass ''KeyError'', key_error, [''main'']) =
     ([Original_except_hook
         [Instance (fst (ErrorHandler_init fresh_process a_client quiet_callback False)),
          Class (OtherClass ''KeyError''), Value key_error, Traceback [''main'']]],
      Raises type_error)"
  by (simp add: except_hook_def getattr_module_def key_error_def
      call_original_except_hook_eq function_saved_def function_excepthook_def)

lemma try_callback_Raises:
  "callback self (client self) v = Raises e \<Longrightarrow>
   try_callback K self v =
     (Callback (client self) v
        # fst (call_original_except_hook K self (exn_type e, e, exn_traceback e)),
      snd (call_original_except_hook K self (exn_type e, e, exn_traceback e)))"
  by (simp add: try_callback_def sys_exc_info_def split: prod.split)

lemma except_hook_fallthrough:
  "\<not> str_contains ''pyrogram.errors'' (getattr_module v) \<Longrightarrow>
   except_hook K self False (ty, v, tb) = call_original_except_hook K self (ty, v, tb)"
  by (simp add: except_hook_def)

lemma namespace_contains:
  assumes "spec_protocol_namespace m"
  shows "str_contains ''pyrogram.errors'' m"
proof -
  from assms consider "m = ''pyrogram.errors''" | "prefix ''pyrogram.errors.'' m"
    by (auto simp: spec_protocol_namespace_def)
  then have "\<exists>ps ss. m = ps @ ''pyrogram.errors'' @ ss"
  proof cases
    case 1
    then have "m = [] @ ''pyrogram.errors'' @ []" by simp
    then show ?thesis by blast
  next
    case 2
    then obtain ss where "m = ''pyrogram.errors.'' @ ss" by (auto simp: prefix_def)
    then have "m = [] @ ''pyrogram.errors'' @ (''.'' @ ss)" by simp
    then show ?thesis by blast
  qed
  then show ?thesis by (simp only: str_contains_iff)
qed

lemma except_hook_callback_calls:
  "callback_calls (fst (except_hook K self catch_all (ty, v, tb))) =
     (if catch_all \<or> str_contains ''pyrogram.errors'' (getattr_module v)
      then [(client self, v)] else [])"
  by (simp add: except_hook_def try_callback_calls call_original_except_hook_def Let_def)

subsection \<open>The wrapped \<^verbatim>\<open>run_in_executor\<close>\<close>

text \<open>
  C2. Whichever way the instance was constructed, a call of its wrapper first awaits
  the saved original, on the client's loop and with the positional and keyword
  arguments the wrapper received, and makes no second call of the original: the first
  call in the trace is that one, before a callback call can appear, and it is the only
  call of the original. The wrapper is what the patched process runs: with
  \<open>catch_all\<close> false, for \<^verbatim>\<open>run_in_executor\<close> on the client's loop; with \<open>catch_all\<close>
  true, for \<^verbatim>\<open>run_in_executor\<close> on any loop that has no instance attribute of that
  name.
\<close>

theorem run_in_executor_awaits_original_once:
  "take 1 (fst (run_in_executor K (fst (ErrorHandler_init p cl cb catch_all)) args kw)) =
     [Original_run_in_executor (loop cl) args kw]
   \<and> original_run_calls (fst (run_in_executor K (fst (ErrorHandler_init p cl cb catch_all)) args kw)) =
     [(loop cl, args, kw)]
   \<and> loop_run K (snd (ErrorHandler_init p cl cb False)) (loop cl) args kw =
     run_in_executor K (fst (ErrorHandler_init p cl cb False)) args kw
   \<and> (loop_run_in_executor p lp = None \<longrightarrow>
        loop_run K (snd (ErrorHandler_init p cl cb True)) lp args kw =
          run_in_executor K (fst (ErrorHandler_init p cl cb True)) args kw)"
proof -
  let ?self = "fst (ErrorHandler_init p cl cb catch_all)"
  obtain rest where tr: "fst (run_in_executor K ?self args kw) =
      Original_run_in_executor (loop (client ?self)) args kw # rest"
    and none: "original_run_calls rest = []"
    using run_in_executor_trace by blast
  from tr none have "take 1 (fst (run_in_executor K ?self args kw)) =
      [Original_run_in_executor (loop cl) args kw]
    \<and> original_run_calls (fst (run_in_executor K ?self args kw)) = [(loop cl, args, kw)]"
    by (simp add: init_client)
  with loop_run_per_client_patch [of K p cl cb args kw]
    loop_run_global_patch [of p lp K cl cb args kw]
  show ?thesis by blast
qed

theorem run_in_executor_awaits_original_once_witness:
  "original_run_calls (fst (loop_run (failing_with bad_request)
      (snd (ErrorHandler_init fresh_process a_client quiet_callback False)) 1
      [PyObj ''executor'', PyObj ''work'', PyInt 7] [])) =
     [(1, [PyObj ''executor'', PyObj ''work'', PyInt 7], [])]
   \<and> original_run_calls (fst (loop_run succeeding
      (snd (ErrorHandler_init fresh_process a_client quiet_callback True)) 2
      [PyObj ''executor'', PyObj ''work''] [(''timeout'', PyInt 3)])) =
     [(1, [PyObj ''executor'', PyObj ''work''], [(''timeout'', PyInt 3)])]"
proof -
  have free: "loop_run_in_executor fresh_process 2 = None"
    by (simp add: fresh_process_def)
  have own: "loop a_client = 1"
    by (simp add: a_client_def)
  from run_in_executor_awaits_original_once
      [of "failing_with bad_request" fresh_process a_client quiet_callback False
          "[PyObj ''executor'', PyObj ''work'', PyInt 7]" "[]" 2]
    run_in_executor_awaits_original_once
      [of succeeding fresh_process a_client quiet_callback True
          "[PyObj ''executor'', PyObj ''work'']" "[(''timeout'', PyInt 3)]" 2]
    free own
  show ?thesis by simp
qed

text \<open>
  C3. When the saved original raises an instance of \<^verbatim>\<open>FloodWait\<close>, the wrapper raises
  the same exception and the callback is not called, for an instance constructed with
  either value of \<open>catch_all\<close>.
\<close>

theorem flood_wait_reraised:
  assumes "original_run_in_executor K (loop cl) args kw = Raises exc"
    and "isinstance exc FloodWait"
  shows "snd (run_in_executor K (fst (ErrorHandler_init p cl cb catch_all)) args kw) = Raises exc
    \<and> callback_calls (fst (run_in_executor K (fst (ErrorHandler_init p cl cb catch_all)) args kw)) = []"
  using assms by (simp add: run_in_executor_def init_handler Let_def)

theorem flood_wait_reraised_witness:
  "run_in_executor (failing_with flood_wait)
      (fst (ErrorHandler_init fresh_process a_client quiet_callback False)) [PyObj ''work''] [] =
     ([Original_run_in_executor 1 [PyObj ''work''] []], Raises flood_wait)
   \<and> run_in_executor (failing_with flood_wait)
      (fst (ErrorHandler_init fresh_process a_client quiet_callback True)) [PyObj ''work''] [] =
     ([Original_run_in_executor 1 [PyObj ''work''] []], Raises flood_wait)"
proof -
  have raised: "original_run_in_executor (failing_with flood_wait) (loop a_client)
      [PyObj ''work''] [] = Raises flood_wait"
    by (simp add: failing_with_def)
  have kind: "isinstance flood_wait FloodWait"
    by (simp add: isinstance_def flood_wait_def)
  have tr: "fst (run_in_executor (failing_with flood_wait)
      (fst (ErrorHandler_init fresh_process a_client quiet_callback b)) [PyObj ''work''] []) =
     [Original_run_in_executor 1 [PyObj ''work''] []]" for b
    using kind by (simp add: run_in_executor_def init_handler failing_with_def a_client_def)
  from flood_wait_reraised [OF raised kind, of fresh_process quiet_callback False]
    flood_wait_reraised [OF raised kind, of fresh_process quiet_callback True] tr
  show ?thesis by (simp add: prod_eq_iff)
qed

text \<open>
  C5. When the saved original returns, the wrapper returns the same value and the
  callback is not called.
\<close>

theorem success_returned_unchanged:
  assumes "original_run_in_executor K (loop (client self)) args kw = Returns result"
  shows "snd (run_in_executor K self args kw) = Returns result
    \<and> callback_calls (fst (run_in_executor K self args kw)) = []"
  using assms by (simp add: run_in_executor_def Let_def)

theorem success_returned_unchanged_witness:
  "snd (run_in_executor succeeding
      (fst (ErrorHandler_init fresh_process a_client broken_callback True)) [PyObj ''work''] []) =
     Returns (PyInt 42)
   \<and> callback_calls (fst (run_in_executor succeeding
      (fst (ErrorHandler_init fresh_process a_client broken_callback True)) [PyObj ''work''] [])) = []"
proof -
  have "original_run_in_executor succeeding
      (loop (client (fst (ErrorHandler_init fresh_process a_client broken_callback True))))
      [PyObj ''work''] [] = Returns (PyInt 42)"
    by (simp add: succeeding_def)
  from success_returned_unchanged [OF this] show ?thesis .
qed

text \<open>
  C4. When the saved original raises an exception that is not a \<^verbatim>\<open>FloodWait\<close> and is
  an instance of a class of \<^verbatim>\<open>exceptions_to_catch\<close>, and the callback returns on it,
  the callback is called exactly once, with the client and that exception, and the
  wrapper returns \<^verbatim>\<open>None\<close> instead of raising.
\<close>

theorem matched_exception_goes_to_callback:
  assumes "original_run_in_executor K (loop (client self)) args kw = Raises exc"
    and "\<not> isinstance exc FloodWait"
    and "except_matches (exceptions_to_catch self) exc"
    and "callback self (client self) exc = Returns r"
  shows "callback_calls (fst (run_in_executor K self args kw)) = [(client self, exc)]
    \<and> snd (run_in_executor K self args kw) = Returns PyNone"
  using assms by (simp add: run_in_executor_def Let_def)

theorem matched_exception_goes_to_callback_witness:
  "callback_calls (fst (run_in_executor (failing_with bad_request)
      (fst (ErrorHandler_init fresh_process a_client quiet_callback False)) [PyObj ''work''] [])) =
     [(a_client, bad_request)]
   \<and> snd (run_in_executor (failing_with bad_request)
      (fst (ErrorHandler_init fresh_process a_client quiet_callback False)) [PyObj ''work''] []) =
     Returns PyNone
   \<and> callback_calls (fst (run_in_executor (failing_with key_error)
      (fst (ErrorHandler_init fresh_process a_client quiet_callback True)) [PyObj ''work''] [])) =
     [(a_client, key_error)]
   \<and> snd (run_in_executor (failing_with key_error)
      (fst (ErrorHandler_init fresh_process a_client quiet_callback True)) [PyObj ''work''] []) =
     Returns PyNone"
proof -
  let ?rpc = "fst (ErrorHandler_init fresh_process a_client quiet_callback False)"
  let ?all = "fst (ErrorHandler_init fresh_process a_client quiet_callback True)"
  have r1: "original_run_in_executor (failing_with bad_request) (loop (client ?rpc))
      [PyObj ''work''] [] = Raises bad_request"
    by (simp add: failing_with_def)
  have n1: "\<not> isinstance bad_request FloodWait"
    by (simp add: isinstance_def bad_request_def)
  have m1: "except_matches (exceptions_to_catch ?rpc) bad_request"
    by (simp add: except_matches_def isinstance_def bad_request_def init_handler)
  have c1: "callback ?rpc (client ?rpc) bad_request = Returns (PyStr ''logged'')"
    by (simp add: init_handler quiet_callback_def)
  have r2: "original_run_in_executor (failing_with key_error) (loop (client ?all))
      [PyObj ''work''] [] = Raises key_error"
    by (simp add: failing_with_def)
  have n2: "\<not> isinstance key_error FloodWait"
    by (simp add: isinstance_def key_error_def)
  have m2: "except_matches (exceptions_to_catch ?all) key_error"
    by (simp add: except_matches_def isinstance_def init_handler)
  have c2: "callback ?all (client ?all) key_error = Returns (PyStr ''logged'')"
    by (simp add: init_handler quiet_callback_def)
  from matched_exception_goes_to_callback [OF r1 n1 m1 c1]
    matched_exception_goes_to_callback [OF r2 n2 m2 c2]
  show ?thesis by (simp add: init_client)
qed

text \<open>
  C9. In the wrapper the callback is called outside any \<^verbatim>\<open>try\<close>: when it raises while
  handling a matched exception, its exception leaves the wrapper, and the saved
  \<^verbatim>\<open>sys.excepthook\<close> is not called.
\<close>

theorem callback_failure_leaves_run_in_executor:
  assumes "original_run_in_executor K (loop (client self)) args kw = Raises exc"
    and "\<not> isinstance exc FloodWait"
    and "except_matches (exceptions_to_catch self) exc"
    and "callback self (client self) exc = Raises exc'"
  shows "snd (run_in_executor K self args kw) = Raises exc'
    \<and> original_hook_calls (fst (run_in_executor K self args kw)) = []
    \<and> callback_calls (fst (run_in_executor K self args kw)) = [(client self, exc)]"
  using assms by (simp add: run_in_executor_def Let_def)

theorem callback_failure_leaves_run_in_executor_witness:
  "run_in_executor (failing_with bad_request)
      (fst (ErrorHandler_init fresh_process a_client broken_callback False)) [PyObj ''work''] [] =
     ([Original_run_in_executor 1 [PyObj ''work''] [], Callback a_client bad_request],
      Raises callback_failure)"
proof -
  let ?rpc = "fst (ErrorHandler_init fresh_process a_client broken_callback False)"
  have r: "original_run_in_executor (failing_with bad_request) (loop (client ?rpc))
      [PyObj ''work''] [] = Raises bad_request"
    by (simp add: failing_with_def)
  have n: "\<not> isinstance bad_request FloodWait"
    by (simp add: isinstance_def bad_request_def)
  have m: "except_matches (exceptions_to_catch ?rpc) bad_request"
    by (simp add: except_matches_def isinstance_def bad_request_def init_handler)
  have c: "callback ?rpc (client ?rpc) bad_request = Raises callback_failure"
    by (simp add: init_handler broken_callback_def)
  have tr: "fst (run_in_executor (failing_with bad_request) ?rpc [PyObj ''work''] []) =
      [Original_run_in_executor 1 [PyObj ''work''] [], Callback a_client bad_request]"
    using n m by (simp add: run_in_executor_def failing_with_def init_handler a_client_def)
  from callback_failure_leaves_run_in_executor [OF r n m c] tr
  show ?thesis by (simp add: prod_eq_iff)
qed

subsection \<open>The replacement of \<^verbatim>\<open>sys.excepthook\<close>\<close>

text \<open>
  C7. After construction with \<open>catch_all\<close> true, every exception that reaches
  \<^verbatim>\<open>sys.excepthook\<close> goes to the callback, which is called once with the client and
  the exception value, whatever the exception is.
\<close>

theorem catch_all_hook_calls_callback:
  "callback_calls (fst (uncaught K (snd (ErrorHandler_init p cl cb True)) (ty, v, tb))) =
     [(cl, v)]"
  by (simp add: uncaught_after_init except_hook_callback_calls init_client)

theorem catch_all_hook_calls_callback_witness:
  "callback_calls (fst (uncaught succeeding
      (snd (ErrorHandler_init fresh_process a_client quiet_callback True))
      (OtherClass ''KeyError'', key_error, [''main'']))) = [(a_client, key_error)]"
  using catch_all_hook_calls_callback
    [of succeeding fresh_process a_client quiet_callback "OtherClass ''KeyError''" key_error
        "[''main'']"]
  by simp

text \<open>
  C6, as the code has it. After construction with \<open>catch_all\<close> false, an exception
  that reaches \<^verbatim>\<open>sys.excepthook\<close> goes to the callback exactly when the string
  \<^verbatim>\<open>pyrogram.errors\<close> occurs in what \<^verbatim>\<open>getattr(value, '__module__', '')\<close> gives. Every
  module of the protocol-error namespace passes that test, and so do other module
  names that contain the string. Any other exception is handed to the saved hook, and
  that is the only call made; a saved hook that the read through \<^verbatim>\<open>self\<close> does not
  bind receives exactly the type, value and traceback that were received.
\<close>

theorem rpc_only_hook_dispatch:
  "callback_calls (fst (uncaught K (snd (ErrorHandler_init p cl cb False)) (ty, v, tb))) =
     (if str_contains ''pyrogram.errors'' (getattr_module v) then [(cl, v)] else [])
   \<and> (spec_protocol_namespace (getattr_module v) \<longrightarrow>
        callback_calls (fst (uncaught K (snd (ErrorHandler_init p cl cb False)) (ty, v, tb))) =
          [(cl, v)])
   \<and> (\<not> str_contains ''pyrogram.errors'' (getattr_module v) \<longrightarrow>
        original_except_hook K = Other_callable f \<longrightarrow>
        fst (uncaught K (snd (ErrorHandler_init p cl cb False)) (ty, v, tb)) =
          [Original_except_hook [Class ty, Value v, Traceback tb]])"
proof (intro conjI impI)
  show calls: "callback_calls (fst (uncaught K (snd (ErrorHandler_init p cl cb False)) (ty, v, tb))) =
      (if str_contains ''pyrogram.errors'' (getattr_module v) then [(cl, v)] else [])"
    by (simp add: uncaught_after_init except_hook_callback_calls init_client)
  assume "spec_protocol_namespace (getattr_module v)"
  then have "str_contains ''pyrogram.errors'' (getattr_module v)"
    by (rule namespace_contains)
  with calls
  show "callback_calls (fst (uncaught K (snd (ErrorHandler_init p cl cb False)) (ty, v, tb))) =
      [(cl, v)]"
    by simp
next
  assume "\<not> str_contains ''pyrogram.errors'' (getattr_module v)"
    and "original_except_hook K = Other_callable f"
  then show "fst (uncaught K (snd (ErrorHandler_init p cl cb False)) (ty, v, tb)) =
      [Original_except_hook [Class ty, Value v, Traceback tb]]"
    by (simp add: uncaught_after_init except_hook_fallthrough
        call_original_except_hook_unbound)
qed

theorem rpc_only_hook_dispatch_witness:
  "callback_calls (fst (uncaught succeeding
      (snd (ErrorHandler_init fresh_process a_client quiet_callback False))
      (OtherClass ''BadRequest'', bad_request, [''invoke'']))) = [(a_client, bad_request)]
   \<and> fst (uncaught succeeding
      (snd (ErrorHandler_init fresh_process a_client quiet_callback False))
      (OtherClass ''KeyError'', key_error, [''main''])) =
     [Original_except_hook
        [Class (OtherClass ''KeyError''), Value key_error, Traceback [''main'']]]"
proof -
  have inside: "spec_protocol_namespace (getattr_module bad_request)"
    by (simp add: spec_protocol_namespace_def getattr_module_def bad_request_def)
  have outside: "\<not> str_contains ''pyrogram.errors'' (getattr_module key_error)"
    by (simp add: getattr_module_def key_error_def)
  have builtin: "original_except_hook succeeding = Other_callable (\<lambda>args. Returns PyNone)"
    by (simp add: succeeding_def builtin_excepthook_def)
  from rpc_only_hook_dispatch
      [of succeeding fresh_process a_client quiet_callback "OtherClass ''BadRequest''"
          bad_request "[''invoke'']" "\<lambda>args. Returns PyNone"]
    inside
  have one: "callback_calls (fst (uncaught succeeding
      (snd (ErrorHandler_init fresh_process a_client quiet_callback False))
      (OtherClass ''BadRequest'', bad_request, [''invoke'']))) = [(a_client, bad_request)]"
    by blast
  from rpc_only_hook_dispatch
      [of succeeding fresh_process a_client quiet_callback "OtherClass ''KeyError''"
          key_error "[''main'']" "\<lambda>args. Returns PyNone"]
    outside builtin
  have two: "fst (uncaught succeeding
      (snd (ErrorHandler_init fresh_process a_client quiet_callback False))
      (OtherClass ''KeyError'', key_error, [''main''])) =
     [Original_except_hook
        [Class (OtherClass ''KeyError''), Value key_error, Traceback [''main'']]]"
    by blast
  from one two show ?thesis by (rule conjI)
qed

text \<open>
  C6 as the specification states it fails: a class of the module
  \<^verbatim>\<open>app.notpyrogram.errors_extra\<close> does not belong to the protocol-error namespace,
  and yet its exception goes to the callback and never reaches the saved hook.
\<close>

theorem rpc_only_hook_dispatch_counterexample:
  "\<not> spec_protocol_namespace (getattr_module lookalike)
   \<and> callback_calls (fst (uncaught succeeding
        (snd (ErrorHandler_init fresh_process a_client quiet_callback False))
        (OtherClass ''Oops'', lookalike, [''main'']))) = [(a_client, lookalike)]
   \<and> original_hook_calls (fst (uncaught succeeding
        (snd (ErrorHandler_init fresh_process a_client quiet_callback False))
        (OtherClass ''Oops'', lookalike, [''main'']))) = []"
proof -
  have name: "getattr_module lookalike = ''app.notpyrogram.errors_extra''"
    by (simp add: getattr_module_def lookalike_def)
  have outside: "\<not> spec_protocol_namespace (getattr_module lookalike)"
    by (simp add: name spec_protocol_namespace_def)
  have tr: "fst (uncaught succeeding
        (snd (ErrorHandler_init fresh_process a_client quiet_callback False))
        (OtherClass ''Oops'', lookalike, [''main''])) = [Callback a_client lookalike]"
    by (simp add: uncaught_after_init except_hook_def name init_handler try_callback_def
        quiet_callback_def)
  from outside tr show ?thesis by simp
qed

text \<open>
  C10. With \<open>catch_all\<close> false the test of line 84 is containment: the callback is
  called exactly when the string \<^verbatim>\<open>pyrogram.errors\<close> occurs somewhere in what
  \<^verbatim>\<open>getattr(value, '__module__', '')\<close> gives, so a module name that merely contains
  it is enough. Without the attribute the lookup gives the empty string instead of
  raising, the callback is not called, and the hook goes on to line 90: all it does is
  the call of the saved hook, read through \<^verbatim>\<open>self\<close>, with the arguments received,
  and it ends as that call ends.
\<close>

theorem origin_test_is_substring:
  "(callback_calls (fst (except_hook K self False (ty, v, tb))) = [(client self, v)]
      \<longleftrightarrow> (\<exists>ps ss. getattr_module v = ps @ ''pyrogram.errors'' @ ss))
   \<and> ((\<exists>ps ss. exn_module v = Some (ps @ ''pyrogram.errors'' @ ss)) \<longrightarrow>
        callback_calls (fst (except_hook K self False (ty, v, tb))) = [(client self, v)])
   \<and> (exn_module v = None \<longrightarrow>
        getattr_module v = []
        \<and> callback_calls (fst (except_hook K self False (ty, v, tb))) = []
        \<and> except_hook K self False (ty, v, tb) =
            ([Original_except_hook
                (bound_args self (original_except_hook K) @ [Class ty, Value v, Traceback tb])],
             case call (original_except_hook K)
                    (bound_args self (original_except_hook K)
                       @ [Class ty, Value v, Traceback tb]) of
               Returns _ \<Rightarrow> Returns PyNone
             | Raises x \<Rightarrow> Raises x))"
proof (intro conjI impI)
  show "callback_calls (fst (except_hook K self False (ty, v, tb))) = [(client self, v)]
      \<longleftrightarrow> (\<exists>ps ss. getattr_module v = ps @ ''pyrogram.errors'' @ ss)"
    by (simp add: except_hook_callback_calls str_contains_iff)
next
  assume "\<exists>ps ss. exn_module v = Some (ps @ ''pyrogram.errors'' @ ss)"
  then obtain ps ss where "exn_module v = Some (ps @ ''pyrogram.errors'' @ ss)"
    by blast
  then have "getattr_module v = ps @ ''pyrogram.errors'' @ ss"
    by (simp only: getattr_module_def option.case)
  then have "\<exists>ps ss. getattr_module v = ps @ ''pyrogram.errors'' @ ss"
    by blast
  then show "callback_calls (fst (except_hook K self False (ty, v, tb))) = [(client self, v)]"
    by (simp add: except_hook_callback_calls str_contains_iff)
next
  assume none: "exn_module v = None"
  then show "getattr_module v = []"
    by (simp add: getattr_module_def)
  then have out: "\<not> str_contains ''pyrogram.errors'' (getattr_module v)"
    by simp
  then show "callback_calls (fst (except_hook K self False (ty, v, tb))) = []"
    by (simp add: except_hook_callback_calls)
  from out show "except_hook K self False (ty, v, tb) =
      ([Original_except_hook
          (bound_args self (original_except_hook K) @ [Class ty, Value v, Traceback tb])],
       case call (original_except_hook K)
              (bound_args self (original_except_hook K)
                 @ [Class ty, Value v, Traceback tb]) of
         Returns _ \<Rightarrow> Returns PyNone
       | Raises x \<Rightarrow> Raises x)"
    by (simp add: except_hook_fallthrough call_original_except_hook_eq)
qed

theorem origin_test_is_substring_witness:
  "callback_calls (fst (except_hook succeeding
      (fst (ErrorHandler_init fresh_process a_client quiet_callback False)) False
      (OtherClass ''Oops'', lookalike, [''main'']))) = [(a_client, lookalike)]
   \<and> except_hook succeeding
      (fst (ErrorHandler_init fresh_process a_client quiet_callback False)) False
      (OtherClass ''KeyError'', key_error, [''main'']) =
     ([Original_except_hook
         [Class (OtherClass ''KeyError''), Value key_error, Traceback [''main'']]],
      Returns PyNone)"
proof -
  let ?rpc = "fst (ErrorHandler_init fresh_process a_client quiet_callback False)"
  have "exn_module lookalike = Some (''app.not'' @ ''pyrogram.errors'' @ ''_extra'')"
    by (simp add: lookalike_def)
  then have inside: "\<exists>ps ss. exn_module lookalike = Some (ps @ ''pyrogram.errors'' @ ss)"
    by blast
  have absent: "exn_module key_error = None"
    by (simp add: key_error_def)
  from origin_test_is_substring
      [of succeeding ?rpc "OtherClass ''Oops''" lookalike "[''main'']"] inside
  have one: "callback_calls (fst (except_hook succeeding ?rpc False
      (OtherClass ''Oops'', lookalike, [''main'']))) = [(client ?rpc, lookalike)]"
    by blast
  from origin_test_is_substring
      [of succeeding ?rpc "OtherClass ''KeyError''" key_error "[''main'']"] absent
  have two: "except_hook succeeding ?rpc False (OtherClass ''KeyError'', key_error, [''main'']) =
      ([Original_except_hook
          (bound_args ?rpc (original_except_hook succeeding)
             @ [Class (OtherClass ''KeyError''), Value key_error, Traceback [''main'']])],
       case call (original_except_hook succeeding)
              (bound_args ?rpc (original_except_hook succeeding)
                 @ [Class (OtherClass ''KeyError''), Value key_error, Traceback [''main'']]) of
         Returns _ \<Rightarrow> Returns PyNone
       | Raises x \<Rightarrow> Raises x)"
    by blast
  from one two show ?thesis
    by (simp add: init_client succeeding_def builtin_excepthook_def)
qed

text \<open>
  C1, as the code has it. When the hook calls the callback (\<open>catch_all\<close> is true, or the
  module test of line 84 holds) and the callback raises \<open>e\<close>, the hook catches \<open>e\<close>
  and calls the saved hook exactly once, with \<^verbatim>\<open>sys.exc_info()\<close> of the
  \<^verbatim>\<open>except\<close> clause: a saved hook that the read through \<^verbatim>\<open>self\<close> does not bind
  receives the type, value and traceback of the callback's exception \<open>e\<close>, not those
  the hook received. The exception \<open>e\<close> does not leave the hook by the hook's own
  doing: the hook returns \<^verbatim>\<open>None\<close> when the saved hook returns, and raises only what
  the saved hook raises.
\<close>

theorem callback_failure_in_hook_reports_callback_exception:
  assumes "callback self (client self) v = Raises e"
    and "catch_all \<or> str_contains ''pyrogram.errors'' (getattr_module v)"
    and "original_except_hook K = Other_callable f"
  shows "fst (except_hook K self catch_all (ty, v, tb)) =
      [Callback (client self) v,
       Original_except_hook [Class (exn_type e), Value e, Traceback (exn_traceback e)]]
    \<and> snd (except_hook K self catch_all (ty, v, tb)) =
      (case f [Class (exn_type e), Value e, Traceback (exn_traceback e)] of
         Returns _ \<Rightarrow> Returns PyNone
       | Raises x \<Rightarrow> Raises x)"
proof -
  from assms(2) have "except_hook K self catch_all (ty, v, tb) = try_callback K self v"
    by (auto simp: except_hook_def)
  with try_callback_Raises [OF assms(1), of K]
    call_original_except_hook_unbound [OF assms(3), of self "exn_type e" e "exn_traceback e"]
  show ?thesis by simp
qed

theorem callback_failure_in_hook_reports_callback_exception_witness:
  "except_hook succeeding (fst (ErrorHandler_init fresh_process a_client broken_callback False))
      False (OtherClass ''BadRequest'', bad_request, [''invoke'']) =
     ([Callback a_client bad_request,
       Original_except_hook
         [Class (OtherClass ''ZeroDivisionError''), Value callback_failure,
          Traceback [''except_hook'', ''on_error'']]],
      Returns PyNone)"
proof -
  let ?rpc = "fst (ErrorHandler_init fresh_process a_client broken_callback False)"
  have raises: "callback ?rpc (client ?rpc) bad_request = Raises callback_failure"
    by (simp add: init_handler broken_callback_def)
  have inside: "False \<or> str_contains ''pyrogram.errors'' (getattr_module bad_request)"
    by (simp add: getattr_module_def bad_request_def)
  have builtin: "original_except_hook succeeding = Other_callable (\<lambda>args. Returns PyNone)"
    by (simp add: succeeding_def builtin_excepthook_def)
  from callback_failure_in_hook_reports_callback_exception
      [OF raises inside builtin, of "OtherClass ''BadRequest''" "[''invoke'']"]
  show ?thesis
    by (simp add: prod_eq_iff init_client callback_failure_def)
qed

text \<open>
  C1 as the specification states it fails: with \<open>catch_all\<close> true and a callback
  that raises \<^verbatim>\<open>ZeroDivisionError\<close>, an uncaught \<^verbatim>\<open>KeyError\<close> makes the saved hook
  (the interpreter's own) receive the \<^verbatim>\<open>ZeroDivisionError\<close> of the callback, not the
  \<^verbatim>\<open>KeyError\<close>.
\<close>

theorem callback_failure_in_hook_counterexample:
  "callback (fst (ErrorHandler_init fresh_process a_client broken_callback True))
      a_client key_error = Raises callback_failure
   \<and> original_hook_calls (fst (uncaught succeeding
        (snd (ErrorHandler_init fresh_process a_client broken_callback True))
        (OtherClass ''KeyError'', key_error, [''main'']))) =
     [[Class (OtherClass ''ZeroDivisionError''), Value callback_failure,
       Traceback [''except_hook'', ''on_error'']]]
   \<and> original_hook_calls (fst (uncaught succeeding
        (snd (ErrorHandler_init fresh_process a_client broken_callback True))
        (OtherClass ''KeyError'', key_error, [''main'']))) \<noteq>
     [[Class (OtherClass ''KeyError''), Value key_error, Traceback [''main'']]]"
proof -
  have tr: "fst (uncaught succeeding
        (snd (ErrorHandler_init fresh_process a_client broken_callback True))
        (OtherClass ''KeyError'', key_error, [''main''])) =
      [Callback a_client key_error,
       Original_except_hook
         [Class (exn_type callback_failure), Value callback_failure,
          Traceback (exn_traceback callback_failure)]]"
    by (simp add: uncaught_after_init except_hook_def init_handler broken_callback_def
        try_callback_Raises call_original_except_hook_eq succeeding_def
        builtin_excepthook_def)
  have ty: "exn_type callback_failure = OtherClass ''ZeroDivisionError''"
    and tb: "exn_traceback callback_failure = [''except_hook'', ''on_error'']"
    by (simp_all add: callback_failure_def)
  have "callback (fst (ErrorHandler_init fresh_process a_client broken_callback True))
      a_client key_error = Raises callback_failure"
    by (simp add: init_handler broken_callback_def)
  with tr ty tb show ?thesis by simp
qed

subsection \<open>The constructor\<close>

text \<open>
  C8. Whatever stood in \<^verbatim>\<open>sys.excepthook\<close>, and for either value of \<open>catch_all\<close>, the
  constructor puts the hook of the new instance there. After a second construction
  the hook of the second instance stands there alone: an uncaught exception is
  handled as the second instance's \<^verbatim>\<open>except_hook\<close> handles it, which depends on the
  second client, callback and flag only, and falls back to the hook saved in the class
  attribute, never to the first instance.
\<close>

theorem init_overwrites_excepthook:
  "sys_excepthook (snd (ErrorHandler_init p cl cb catch_all)) =
     Partial_except_hook (fst (ErrorHandler_init p cl cb catch_all)) catch_all
   \<and> sys_excepthook (snd (ErrorHandler_init (snd (ErrorHandler_init p cl1 cb1 flag1)) cl2 cb2 flag2)) =
     Partial_except_hook
       \<lparr>client = cl2, callback = cb2,
        exceptions_to_catch = (if flag2 then [RPCError, BaseException] else [RPCError])\<rparr> flag2
   \<and> uncaught K (snd (ErrorHandler_init (snd (ErrorHandler_init p cl1 cb1 flag1)) cl2 cb2 flag2)) info =
     except_hook K
       \<lparr>client = cl2, callback = cb2,
        exceptions_to_catch = (if flag2 then [RPCError, BaseException] else [RPCError])\<rparr> flag2 info"
proof (intro conjI)
  show "sys_excepthook (snd (ErrorHandler_init p cl cb catch_all)) =
      Partial_except_hook (fst (ErrorHandler_init p cl cb catch_all)) catch_all"
    by (simp add: ErrorHandler_init_def Let_def)
  show "sys_excepthook (snd (ErrorHandler_init (snd (ErrorHandler_init p cl1 cb1 flag1)) cl2 cb2 flag2)) =
      Partial_except_hook
        \<lparr>client = cl2, callback = cb2,
         exceptions_to_catch = (if flag2 then [RPCError, BaseException] else [RPCError])\<rparr> flag2"
    by (simp add: ErrorHandler_init_def Let_def)
  show "uncaught K (snd (ErrorHandler_init (snd (ErrorHandler_init p cl1 cb1 flag1)) cl2 cb2 flag2)) info =
      except_hook K
        \<lparr>client = cl2, callback = cb2,
         exceptions_to_catch = (if flag2 then [RPCError, BaseException] else [RPCError])\<rparr> flag2 info"
    by (simp add: uncaught_after_init init_handler)
qed

theorem init_overwrites_excepthook_witness:
  "uncaught succeeding
      (snd (ErrorHandler_init
         (snd (ErrorHandler_init fresh_process a_client broken_callback True))
         a_client quiet_callback False))
      (OtherClass ''KeyError'', key_error, [''main'']) =
     ([Original_except_hook
         [Class (OtherClass ''KeyError''), Value key_error, Traceback [''main'']]],
      Returns PyNone)
   \<and> uncaught succeeding
      (snd (ErrorHandler_init
         (snd (ErrorHandler_init fresh_process a_client broken_callback False))
         a_client quiet_callback True))
      (OtherClass ''KeyError'', key_error, [''main'']) =
     ([Callback a_client key_error], Returns PyNone)"
proof -
  have outside: "\<not> str_contains ''pyrogram.errors'' (getattr_module key_error)"
    by (simp add: getattr_module_def key_error_def)
  from init_overwrites_excepthook
      [of fresh_process a_client quiet_callback False a_client broken_callback True
          a_client quiet_callback False succeeding
          "(OtherClass ''KeyError'', key_error, [''main''])"]
    init_overwrites_excepthook
      [of fresh_process a_client quiet_callback True a_client broken_callback False
          a_client quiet_callback True succeeding
          "(OtherClass ''KeyError'', key_error, [''main''])"]
    outside
  show ?thesis
    by (simp add: except_hook_def call_original_except_hook_eq try_callback_def
        quiet_callback_def succeeding_def builtin_excepthook_def)
qed

end
